theory Spec2Isabelle
  imports Main "HOL-Library.Word"
begin

unbundle bit_operations_syntax

section \<open>Data model\<close>

text \<open>
  Go's \<open>byte\<close> and \<open>uint16\<close> are words with wrap-around arithmetic. The fixed-size
  arrays of the machine (\<open>[4096]byte\<close>, \<open>[16]byte\<close>, \<open>[16]uint16\<close>,
  \<open>[2048]byte\<close>) are functions from the index to the cell; their lengths are the
  constants below and every access whose index is not known to be in range checks it, a
  failed check being Go's run-time panic.
\<close>

type_synonym byte = "8 word"
type_synonym uint16 = "16 word"

definition GraphicsWidth :: nat where
  "GraphicsWidth = 64"

definition GraphicsHeight :: nat where
  "GraphicsHeight = 32"

definition PixelsLen :: nat where
  "PixelsLen = GraphicsWidth * GraphicsHeight"

definition MemoryLen :: nat where
  "MemoryLen = 4096"

definition StackLen :: nat where
  "StackLen = 16"

text \<open>A run-time panic of the Go program: the index and the length, or a bad slice.\<close>

datatype panic =
    IndexOutOfRange nat nat
  | SliceBoundsOutOfRange

text \<open>
  Go \<open>error\<close> values. \<open>ErrQuit\<close> is the package's sentinel, compared by identity in
  the source, \<open>UnknownOpcode\<close> carries the opcode, \<open>EOF\<close> is \<open>io.EOF\<close>, and
  \<open>ErrorString\<close> is any error made by \<open>errors.New\<close> or \<open>fmt.Errorf\<close>, known by its
  message.
\<close>

datatype error =
    ErrQuit
  | UnknownOpcode uint16
  | EOF
  | ErrorString string

text \<open>
  The \<open>Graphics\<close> struct. Its embedded \<open>Display\<close> is an external sink whose result
  \<open>dispatch\<close> discards, so \<open>Draw\<close> leaves the machine as it is and is not modelled.
\<close>

record Graphics =
  Pixels :: "nat \<Rightarrow> byte"

text \<open>
  The \<open>CPU\<close> struct. Its \<open>key\<close> array is never read or written; the keypad, the
  clock and the stop channel are what the machine reads from outside and are given to
  the functions below as arguments.
\<close>

record CPU =
  Memory :: "nat \<Rightarrow> byte"
  V :: "nat \<Rightarrow> byte"
  I :: uint16
  ProgramCounter :: uint16
  Stack :: "nat \<Rightarrow> uint16"
  StackPointer :: byte
  Graphics :: Graphics
  DelayTimer :: byte
  SoundTimer :: byte

text \<open>
  What one cycle reads from outside the machine: the value that
  \<open>rand.New(...).Intn(255)\<close> returns, and the \<open>Keypad\<close> field, \<open>None\<close> for a nil
  keypad and \<open>Some r\<close> for a keypad whose \<open>GetKey\<close> returns \<open>r\<close> in this cycle.
\<close>

record env =
  Intn255 :: int
  Keypad :: "(byte \<times> error option) option"

section \<open>Graphics buffer\<close>

text \<open>A Go \<open>for\<close> loop over a range whose body may panic: the first panic ends it.\<close>

fun forM :: "'a list \<Rightarrow> ('a \<Rightarrow> 's \<Rightarrow> panic + 's) \<Rightarrow> 's \<Rightarrow> panic + 's" where
  "forM [] f s = Inr s"
| "forM (x # xs) f s = (case f x s of Inl p \<Rightarrow> Inl p | Inr s' \<Rightarrow> forM xs f s')"

text \<open>
  \<open>Set\<close>: \<open>a := x + y*GraphicsWidth\<close> in \<open>uint16\<close>; \<open>g.Pixels[a]\<close> panics when \<open>a\<close> is
  not below 2048.
\<close>

definition Set :: "uint16 \<Rightarrow> uint16 \<Rightarrow> bool \<Rightarrow> Graphics \<Rightarrow> panic + (bool \<times> Graphics)" where
  "Set x y on g =
     (let a = unat (x + y * of_nat GraphicsWidth) in
      if a < PixelsLen then
        (let collision = (Pixels g a = 0x01);
             v = (if on then 0x01 else 0x00)
         in Inr (collision, g\<lparr>Pixels := (Pixels g)(a := Pixels g a XOR v)\<rparr>))
      else Inl (IndexOutOfRange a PixelsLen))"

text \<open>The body of the inner loop of \<open>WriteSprite\<close>, for row \<open>yl\<close> and column \<open>xl\<close>.\<close>

definition WriteSprite_pixel ::
  "byte \<Rightarrow> byte \<Rightarrow> byte \<Rightarrow> nat \<Rightarrow> nat \<Rightarrow> bool \<times> Graphics \<Rightarrow> panic + (bool \<times> Graphics)" where
  "WriteSprite_pixel r x y yl xl s =
     (let i = drop_bit xl (0x80 :: byte);
          on = (r AND i = i);
          xp0 = (ucast x :: uint16) + of_nat xl;
          xp = (if unat xp0 \<ge> GraphicsWidth then xp0 - of_nat GraphicsWidth else xp0);
          yp0 = (ucast y :: uint16) + of_nat yl;
          yp = (if unat yp0 \<ge> GraphicsHeight then yp0 - of_nat GraphicsHeight else yp0)
      in case Set xp yp on (snd s) of
           Inl p \<Rightarrow> Inl p
         | Inr (hit, g') \<Rightarrow> Inr (if hit then True else fst s, g'))"

definition WriteSprite :: "byte list \<Rightarrow> byte \<Rightarrow> byte \<Rightarrow> Graphics \<Rightarrow> panic + (bool \<times> Graphics)" where
  "WriteSprite sprite x y g =
     forM [0..<length sprite]
       (\<lambda>yl. forM [0..<8] (WriteSprite_pixel (sprite ! yl) x y yl))
       (False, g)"

text \<open>
  \<open>EachPixel\<close> calls \<open>fn x y a\<close> for \<open>y\<close> from 0 while \<open>y < GraphicsHeight-1\<close> and
  \<open>x\<close> from 0 while \<open>x < GraphicsWidth-1\<close>, with \<open>a = y*GraphicsWidth + x\<close>.
\<close>

definition EachPixel :: "(nat \<Rightarrow> nat \<Rightarrow> nat \<Rightarrow> 's \<Rightarrow> 's) \<Rightarrow> 's \<Rightarrow> 's" where
  "EachPixel fn s =
     fold (\<lambda>y. fold (\<lambda>x. fn x y (y * GraphicsWidth + x)) [0..<GraphicsWidth - 1])
       [0..<GraphicsHeight - 1] s"

definition Clear :: "Graphics \<Rightarrow> Graphics" where
  "Clear g = EachPixel (\<lambda>_ _ addr g'. g'\<lparr>Pixels := (Pixels g')(addr := 0)\<rparr>) g"

section \<open>Machine creation and program load\<close>

definition FONT :: "byte list" where
  "FONT =
    [0xF0, 0x90, 0x90, 0x90, 0xF0,
     0x20, 0x60, 0x20, 0x20, 0x70,
     0xF0, 0x10, 0xF0, 0x80, 0xF0,
     0xF0, 0x10, 0xF0, 0x10, 0xF0,
     0x90, 0x90, 0xF0, 0x10, 0x10,
     0xF0, 0x80, 0xF0, 0x10, 0xF0,
     0xF0, 0x80, 0xF0, 0x90, 0xF0,
     0xF0, 0x10, 0x20, 0x40, 0x40,
     0xF0, 0x90, 0xF0, 0x90, 0xF0,
     0xF0, 0x90, 0xF0, 0x10, 0xF0,
     0xF0, 0x90, 0xF0, 0x90, 0x90,
     0xE0, 0x90, 0xE0, 0x90, 0xE0,
     0xF0, 0x80, 0x80, 0x80, 0xF0,
     0xE0, 0x90, 0x90, 0x90, 0xE0,
     0xF0, 0x80, 0xF0, 0x80, 0xF0,
     0xF0, 0x80, 0xF0, 0x80, 0x80]"

text \<open>\<open>NewCPU\<close>: everything zero, the program counter at 0x200, the font copied in.\<close>

definition NewCPU :: CPU where
  "NewCPU =
     \<lparr>Memory = (\<lambda>a. if a < 80 then FONT ! a else 0),
      V = (\<lambda>_. 0),
      I = 0,
      ProgramCounter = 0x200,
      Stack = (\<lambda>_. 0),
      StackPointer = 0,
      Graphics = \<lparr>Pixels = (\<lambda>_. 0)\<rparr>,
      DelayTimer = 0,
      SoundTimer = 0\<rparr>"

text \<open>
  The reader that \<open>LoadBytes\<close> builds, Go's \<open>bytes.Reader\<close>: the bytes and the read
  position. Its \<open>Read(b)\<close> returns \<open>0, io.EOF\<close> when nothing is left and otherwise
  copies \<open>min(len(b), remaining)\<close> bytes into the front of \<open>b\<close> and returns that
  count with a nil error. The model returns the count, the error, the bytes copied and
  the advanced reader.
\<close>

record Reader =
  Reader_s :: "byte list"
  Reader_i :: nat

definition NewReader :: "byte list \<Rightarrow> Reader" where
  "NewReader b = \<lparr>Reader_s = b, Reader_i = 0\<rparr>"

definition Reader_Read :: "Reader \<Rightarrow> nat \<Rightarrow> nat \<times> error option \<times> byte list \<times> Reader" where
  "Reader_Read r len_b =
     (if Reader_i r \<ge> length (Reader_s r) then (0, Some EOF, [], r)
      else
        (let n = min len_b (length (Reader_s r) - Reader_i r)
         in (n, None, take n (drop (Reader_i r) (Reader_s r)), r\<lparr>Reader_i := Reader_i r + n\<rparr>)))"

text \<open>
  \<open>load\<close>: one \<open>Read\<close> into the slice \<open>c.Memory[offset:]\<close>, whose length is
  \<open>4096 - offset\<close>; the slice expression panics unless \<open>0 \<le> offset \<le> 4096\<close>. The
  reader is the caller's and its new position is not part of the result.
\<close>

definition load :: "int \<Rightarrow> Reader \<Rightarrow> CPU \<Rightarrow> panic + ((int \<times> error option) \<times> CPU)" where
  "load offset r c =
     (if offset < 0 \<or> offset > int MemoryLen then Inl SliceBoundsOutOfRange
      else
        (let off = nat offset;
             (n, err, bs, r') = Reader_Read r (MemoryLen - off)
         in Inr ((int n, err),
                 c\<lparr>Memory := (\<lambda>a. if off \<le> a \<and> a < off + n then bs ! (a - off) else Memory c a)\<rparr>)))"

definition Load :: "Reader \<Rightarrow> CPU \<Rightarrow> panic + ((int \<times> error option) \<times> CPU)" where
  "Load r c = load 0x200 r c"

definition LoadBytes :: "byte list \<Rightarrow> CPU \<Rightarrow> panic + ((int \<times> error option) \<times> CPU)" where
  "LoadBytes b c = Load (NewReader b) c"

section \<open>Decode and dispatch\<close>

definition bindP :: "panic + 'a \<Rightarrow> ('a \<Rightarrow> panic + 'b) \<Rightarrow> panic + 'b" where
  "bindP m f = (case m of Inl p \<Rightarrow> Inl p | Inr a \<Rightarrow> f a)"

definition Memory_at :: "uint16 \<Rightarrow> CPU \<Rightarrow> panic + byte" where
  "Memory_at a c =
     (if unat a < MemoryLen then Inr (Memory c (unat a))
      else Inl (IndexOutOfRange (unat a) MemoryLen))"

definition Memory_set :: "uint16 \<Rightarrow> byte \<Rightarrow> CPU \<Rightarrow> panic + CPU" where
  "Memory_set a v c =
     (if unat a < MemoryLen then Inr (c\<lparr>Memory := (Memory c)(unat a := v)\<rparr>)
      else Inl (IndexOutOfRange (unat a) MemoryLen))"

definition decodeOp :: "CPU \<Rightarrow> panic + uint16" where
  "decodeOp c =
     bindP (Memory_at (ProgramCounter c) c) (\<lambda>hi.
     bindP (Memory_at (ProgramCounter c + 1) c) (\<lambda>lo.
       Inr (push_bit 8 (ucast hi) OR ucast lo)))"

text \<open>The message of an error, Go's \<open>Error()\<close>; \<open>UnknownOpcode\<close> prints \<open>0x%04X\<close>.\<close>

definition hexdigit :: "nat \<Rightarrow> char" where
  "hexdigit k = ''0123456789ABCDEF'' ! k"

definition hex4 :: "uint16 \<Rightarrow> string" where
  "hex4 w = map (\<lambda>k. hexdigit (unat (drop_bit k w AND 0xF))) [12, 8, 4, 0]"

fun Error :: "error \<Rightarrow> string" where
  "Error ErrQuit = ''chip8: shutting down''"
| "Error (UnknownOpcode w) = ''chip8: unknown opcode: 0x'' @ hex4 w"
| "Error EOF = ''EOF''"
| "Error (ErrorString m) = m"

definition NullKeypad :: "byte \<times> error option" where
  "NullKeypad = (0x00, Some (ErrorString ''null keypad not usable''))"

text \<open>\<open>keypad()\<close> then \<open>GetKey()\<close>: a nil keypad falls back to the default, the null one.\<close>

definition keypad :: "env \<Rightarrow> byte \<times> error option" where
  "keypad env = (case Keypad env of None \<Rightarrow> NullKeypad | Some r \<Rightarrow> r)"

definition getKey :: "env \<Rightarrow> byte \<times> error option" where
  "getKey env =
     (case keypad env of
        (b, Some err) \<Rightarrow>
          if err = ErrQuit then (b, Some err)
          else (b, Some (ErrorString (''chip8: unable to get key from keypad: '' @ Error err)))
      | (b, None) \<Rightarrow> (b, None))"

text \<open>The nested switch of class \<open>0x0000\<close>, on the whole opcode.\<close>

definition dispatch_0x0 :: "uint16 \<Rightarrow> CPU \<Rightarrow> panic + (error option \<times> CPU)" where
  "dispatch_0x0 opcode c =
     (if opcode = 0x00E0 then
        Inr (None, c\<lparr>Graphics := Clear (Graphics c), ProgramCounter := ProgramCounter c + 2\<rparr>)
      else if opcode = 0x00EE then
        (let sp = unat (StackPointer c) in
         if sp < StackLen then
           (let c1 = c\<lparr>ProgramCounter := Stack c sp\<rparr>;
                c2 = c1\<lparr>StackPointer := StackPointer c1 - 1\<rparr>
            in Inr (None, c2\<lparr>ProgramCounter := ProgramCounter c2 + 2\<rparr>))
         else Inl (IndexOutOfRange sp StackLen))
      else Inr (Some (UnknownOpcode opcode), c))"

text \<open>Class \<open>0x2000\<close>: the stack pointer moves first, then the indexed store.\<close>

definition dispatch_0x2 :: "uint16 \<Rightarrow> CPU \<Rightarrow> panic + (error option \<times> CPU)" where
  "dispatch_0x2 opcode c =
     (let c1 = c\<lparr>StackPointer := StackPointer c + 1\<rparr>;
          sp = unat (StackPointer c1)
      in if sp < StackLen then
           Inr (None, c1\<lparr>Stack := (Stack c1)(sp := ProgramCounter c1),
                        ProgramCounter := opcode AND 0x0FFF\<rparr>)
         else Inl (IndexOutOfRange sp StackLen))"

text \<open>
  The nested switch of class \<open>0x8000\<close>, on the bottom nibble. It has no default case:
  control leaves the switch and reaches the final \<open>return nil\<close>. The flag is stored
  before the result, and the result is computed from the registers as they are then.
\<close>

definition dispatch_0x8 :: "uint16 \<Rightarrow> CPU \<Rightarrow> error option \<times> CPU" where
  "dispatch_0x8 opcode c =
     (let x = unat (drop_bit 8 (opcode AND 0x0F00));
          y = unat (drop_bit 4 (opcode AND 0x00F0));
          k = opcode AND 0x000F
      in if k = 0x0000 then
           (None, c\<lparr>V := (V c)(x := V c y), ProgramCounter := ProgramCounter c + 2\<rparr>)
         else if k = 0x0001 then
           (None, c\<lparr>V := (V c)(x := V c y OR V c x), ProgramCounter := ProgramCounter c + 2\<rparr>)
         else if k = 0x0002 then
           (None, c\<lparr>V := (V c)(x := V c y AND V c x), ProgramCounter := ProgramCounter c + 2\<rparr>)
         else if k = 0x0003 then
           (None, c\<lparr>V := (V c)(x := V c y XOR V c x), ProgramCounter := ProgramCounter c + 2\<rparr>)
         else if k = 0x0004 then
           (let result = (ucast (V c x) :: uint16) + ucast (V c y);
                cf = (if result > 0xFF then 1 else 0);
                c1 = c\<lparr>V := (V c)(0xF := cf)\<rparr>;
                c2 = c1\<lparr>V := (V c1)(x := ucast result)\<rparr>
            in (None, c2\<lparr>ProgramCounter := ProgramCounter c2 + 2\<rparr>))
         else if k = 0x0005 then
           (let cf = (if V c x > V c y then 1 else 0);
                c1 = c\<lparr>V := (V c)(0xF := cf)\<rparr>;
                c2 = c1\<lparr>V := (V c1)(x := V c1 x - V c1 y)\<rparr>
            in (None, c2\<lparr>ProgramCounter := ProgramCounter c2 + 2\<rparr>))
         else if k = 0x0006 then
           (let cf = (if V c x AND 0x01 = 0x01 then 1 else 0);
                c1 = c\<lparr>V := (V c)(0xF := cf)\<rparr>;
                c2 = c1\<lparr>V := (V c1)(x := V c1 x div 2)\<rparr>
            in (None, c2\<lparr>ProgramCounter := ProgramCounter c2 + 2\<rparr>))
         else if k = 0x0007 then
           (let cf = (if V c y > V c x then 1 else 0);
                c1 = c\<lparr>V := (V c)(0xF := cf)\<rparr>;
                c2 = c1\<lparr>V := (V c1)(x := V c1 y - V c1 x)\<rparr>
            in (None, c2\<lparr>ProgramCounter := ProgramCounter c2 + 2\<rparr>))
         else if k = 0x000E then
           (let cf = (if V c x AND 0x80 = 0x80 then 1 else 0);
                c1 = c\<lparr>V := (V c)(0xF := cf)\<rparr>;
                c2 = c1\<lparr>V := (V c1)(x := V c1 x * 2)\<rparr>
            in (None, c2\<lparr>ProgramCounter := ProgramCounter c2 + 2\<rparr>))
         else (None, c))"

definition dispatch_0x9 :: "uint16 \<Rightarrow> CPU \<Rightarrow> error option \<times> CPU" where
  "dispatch_0x9 opcode c =
     (let x = unat (drop_bit 8 (opcode AND 0x0F00));
          y = unat (drop_bit 4 (opcode AND 0x00F0))
      in if opcode AND 0x000F = 0x0000 then
           (let c1 = c\<lparr>ProgramCounter := ProgramCounter c + 2\<rparr>
            in (None, if V c1 x \<noteq> V c1 y then c1\<lparr>ProgramCounter := ProgramCounter c1 + 2\<rparr> else c1))
         else (Some (UnknownOpcode opcode), c))"

text \<open>
  Class \<open>0xD000\<close>: the sprite is the slice \<open>c.Memory[c.I:c.I+n]\<close>, with \<open>c.I+n\<close> in
  \<open>uint16\<close>; the slice expression panics unless \<open>low \<le> high \<le> 4096\<close>.
\<close>

definition dispatch_0xD :: "uint16 \<Rightarrow> CPU \<Rightarrow> panic + (error option \<times> CPU)" where
  "dispatch_0xD opcode c =
     (let x = V c (unat (drop_bit 8 (opcode AND 0x0F00)));
          y = V c (unat (drop_bit 4 (opcode AND 0x00F0)));
          n = opcode AND 0x000F;
          lo = unat (I c);
          hi = unat (I c + n)
      in if hi > MemoryLen \<or> lo > hi then Inl SliceBoundsOutOfRange
         else
           bindP (WriteSprite (map (Memory c) [lo..<hi]) x y (Graphics c)) (\<lambda>(collision, g').
             (let cf = (if collision then 0x01 else 0x00);
                  c1 = c\<lparr>Graphics := g'\<rparr>;
                  c2 = c1\<lparr>V := (V c1)(0xF := cf)\<rparr>
              in Inr (None, c2\<lparr>ProgramCounter := ProgramCounter c2 + 2\<rparr>))))"

definition dispatch_0xE :: "env \<Rightarrow> uint16 \<Rightarrow> CPU \<Rightarrow> error option \<times> CPU" where
  "dispatch_0xE env opcode c =
     (let x = unat (drop_bit 8 (opcode AND 0x0F00));
          k = opcode AND 0x00FF
      in if k = 0x9E then
           (let c1 = c\<lparr>ProgramCounter := ProgramCounter c + 2\<rparr>
            in case getKey env of
                 (b, Some err) \<Rightarrow> (Some err, c1)
               | (b, None) \<Rightarrow>
                   (None, if V c1 x = b then c1\<lparr>ProgramCounter := ProgramCounter c1 + 2\<rparr> else c1))
         else if k = 0xA1 then
           (let c1 = c\<lparr>ProgramCounter := ProgramCounter c + 2\<rparr>
            in case getKey env of
                 (b, Some err) \<Rightarrow> (Some err, c1)
               | (b, None) \<Rightarrow>
                   (None, if V c1 x \<noteq> b then c1\<lparr>ProgramCounter := ProgramCounter c1 + 2\<rparr> else c1))
         else (Some (UnknownOpcode opcode), c))"

definition dispatch_0xF :: "env \<Rightarrow> uint16 \<Rightarrow> CPU \<Rightarrow> panic + (error option \<times> CPU)" where
  "dispatch_0xF env opcode c =
     (let x = unat (drop_bit 8 (opcode AND 0x0F00));
          k = opcode AND 0x00FF
      in if k = 0x07 then
           Inr (None, c\<lparr>V := (V c)(x := DelayTimer c), ProgramCounter := ProgramCounter c + 2\<rparr>)
         else if k = 0x0A then
           (case getKey env of
              (b, Some err) \<Rightarrow> Inr (Some err, c)
            | (b, None) \<Rightarrow>
                Inr (None, c\<lparr>V := (V c)(x := b), ProgramCounter := ProgramCounter c + 2\<rparr>))
         else if k = 0x15 then
           Inr (None, c\<lparr>DelayTimer := V c x, ProgramCounter := ProgramCounter c + 2\<rparr>)
         else if k = 0x18 then
           Inr (None, c\<lparr>SoundTimer := V c x, ProgramCounter := ProgramCounter c + 2\<rparr>)
         else if k = 0x1E then
           Inr (None, c\<lparr>I := I c + ucast (V c x), ProgramCounter := ProgramCounter c + 2\<rparr>)
         else if k = 0x29 then
           Inr (None, c\<lparr>I := ucast (V c x) * 0x05, ProgramCounter := ProgramCounter c + 2\<rparr>)
         else if k = 0x33 then
           bindP (Memory_set (I c) (V c x div 100) c) (\<lambda>c1.
           bindP (Memory_set (I c1 + 1) ((V c1 x div 10) mod 10) c1) (\<lambda>c2.
           bindP (Memory_set (I c2 + 2) ((V c2 x mod 100) mod 10) c2) (\<lambda>c3.
             Inr (None, c3\<lparr>ProgramCounter := ProgramCounter c3 + 2\<rparr>))))
         else if k = 0x55 then
           bindP (forM [0..<Suc x] (\<lambda>i c'. Memory_set (I c' + of_nat i) (V c' i) c') c) (\<lambda>c1.
             Inr (None, c1\<lparr>ProgramCounter := ProgramCounter c1 + 2\<rparr>))
         else if k = 0x65 then
           bindP (forM [0..<Suc x]
                    (\<lambda>i c'. bindP (Memory_at (I c' + of_nat i) c') (\<lambda>b. Inr (c'\<lparr>V := (V c')(i := b)\<rparr>))) c)
             (\<lambda>c1. Inr (None, c1\<lparr>ProgramCounter := ProgramCounter c1 + 2\<rparr>))
         else Inr (Some (UnknownOpcode opcode), c))"

text \<open>
  \<open>dispatch\<close>: the outer switch on \<open>opcode & 0xF000\<close>. The result is a panic, or the
  returned error (\<open>None\<close> for nil) with the machine as the call left it. Register
  indices come from a nibble and are below 16.
\<close>

definition dispatch :: "env \<Rightarrow> uint16 \<Rightarrow> CPU \<Rightarrow> panic + (error option \<times> CPU)" where
  "dispatch env opcode c =
     (let t = opcode AND 0xF000 in
      if t = 0x0000 then dispatch_0x0 opcode c
      else if t = 0x1000 then Inr (None, c\<lparr>ProgramCounter := opcode AND 0x0FFF\<rparr>)
      else if t = 0x2000 then dispatch_0x2 opcode c
      else if t = 0x3000 then
        (let reg = unat (drop_bit 8 (opcode AND 0x0F00));
             nn = (ucast opcode :: byte);
             c1 = c\<lparr>ProgramCounter := ProgramCounter c + 2\<rparr>
         in Inr (None, if V c1 reg = nn then c1\<lparr>ProgramCounter := ProgramCounter c1 + 2\<rparr> else c1))
      else if t = 0x4000 then
        (let reg = unat (drop_bit 8 (opcode AND 0x0F00));
             nn = (ucast opcode :: byte);
             c1 = c\<lparr>ProgramCounter := ProgramCounter c + 2\<rparr>
         in Inr (None, if V c1 reg \<noteq> nn then c1\<lparr>ProgramCounter := ProgramCounter c1 + 2\<rparr> else c1))
      else if t = 0x5000 then
        (let x = unat (drop_bit 8 (opcode AND 0x0F00));
             y = unat (drop_bit 8 (opcode AND 0x00F0));
             c1 = c\<lparr>ProgramCounter := ProgramCounter c + 2\<rparr>
         in Inr (None, if V c1 x = V c1 y then c1\<lparr>ProgramCounter := ProgramCounter c1 + 2\<rparr> else c1))
      else if t = 0x6000 then
        (let x = unat (drop_bit 8 (opcode AND 0x0F00));
             nn = (ucast opcode :: byte);
             c1 = c\<lparr>ProgramCounter := ProgramCounter c + 2\<rparr>
         in Inr (None, c1\<lparr>V := (V c1)(x := nn)\<rparr>))
      else if t = 0x7000 then
        (let x = unat (drop_bit 8 (opcode AND 0x0F00));
             kk = (ucast opcode :: byte);
             c1 = c\<lparr>V := (V c)(x := V c x + kk)\<rparr>
         in Inr (None, c1\<lparr>ProgramCounter := ProgramCounter c1 + 2\<rparr>))
      else if t = 0x8000 then Inr (dispatch_0x8 opcode c)
      else if t = 0x9000 then Inr (dispatch_0x9 opcode c)
      else if t = 0xA000 then
        Inr (None, c\<lparr>I := opcode AND 0x0FFF, ProgramCounter := ProgramCounter c + 2\<rparr>)
      else if t = 0xB000 then
        Inr (None, c\<lparr>ProgramCounter := (opcode AND 0x0FFF) + ucast (V c 0)\<rparr>)
      else if t = 0xC000 then
        (let x = unat (drop_bit 8 (opcode AND 0x0F00));
             kk = (ucast opcode :: byte);
             c1 = c\<lparr>V := (V c)(x := kk + word_of_int (Intn255 env))\<rparr>
         in Inr (None, c1\<lparr>ProgramCounter := ProgramCounter c1 + 2\<rparr>))
      else if t = 0xD000 then dispatch_0xD opcode c
      else if t = 0xE000 then Inr (dispatch_0xE env opcode c)
      else if t = 0xF000 then dispatch_0xF env opcode c
      else Inr (Some (UnknownOpcode opcode), c))"

section \<open>Execution loop\<close>

text \<open>
  \<open>emulateCycle\<close>: decode, dispatch, and only after a nil error the two timers. The
  bell printed when the sound timer is 1 goes to the terminal and is not modelled.
\<close>

definition emulateCycle :: "env \<Rightarrow> CPU \<Rightarrow> panic + ((uint16 \<times> error option) \<times> CPU)" where
  "emulateCycle env c =
     bindP (decodeOp c) (\<lambda>opcode.
     bindP (dispatch env opcode c) (\<lambda>(err, c1).
       case err of
         Some e \<Rightarrow> Inr ((opcode, Some e), c1)
       | None \<Rightarrow>
           (let c2 = (if DelayTimer c1 > 0 then c1\<lparr>DelayTimer := DelayTimer c1 - 1\<rparr> else c1);
                c3 = (if SoundTimer c2 > 0 then c2\<lparr>SoundTimer := SoundTimer c2 - 1\<rparr> else c2)
            in Inr ((opcode, None), c3))))"

text \<open>
  \<open>Run\<close> selects between the stop channel and the clock for ever. The model is driven
  by the list of what the \<open>select\<close> receives: a stop, or a tick together with what that
  cycle reads from outside. When the list is used up the loop is still waiting.
\<close>

datatype event = Stop | Tick env

datatype run_result =
    Returned "error option" CPU
  | Panicked panic
  | Waiting CPU

fun Run :: "event list \<Rightarrow> CPU \<Rightarrow> run_result" where
  "Run [] c = Waiting c"
| "Run (Stop # evs) c = Returned None c"
| "Run (Tick env # evs) c =
     (case emulateCycle env c of
        Inl p \<Rightarrow> Panicked p
      | Inr ((opcode, Some err), c') \<Rightarrow>
          if err = ErrQuit then Returned None c' else Returned (Some err) c'
      | Inr ((opcode, None), c') \<Rightarrow> Run evs c')"

text \<open>
  Opcodes dispatched one after the other on the same machine, stopping at the first
  panic or error: what the loop does with consecutive instructions, without the fetch
  and the timers.
\<close>

fun dispatch_seq :: "env \<Rightarrow> uint16 list \<Rightarrow> CPU \<Rightarrow> panic + (error option \<times> CPU)" where
  "dispatch_seq env [] c = Inr (None, c)"
| "dispatch_seq env (opcode # ops) c =
     (case dispatch env opcode c of
        Inl p \<Rightarrow> Inl p
      | Inr (Some err, c') \<Rightarrow> Inr (Some err, c')
      | Inr (None, c') \<Rightarrow> dispatch_seq env ops c')"

text \<open>
  The same with what each dispatch reads from outside given per opcode: the
  instructions of a subroutine body, each in its own cycle.
\<close>

fun dispatch_steps :: "(env \<times> uint16) list \<Rightarrow> CPU \<Rightarrow> panic + (error option \<times> CPU)" where
  "dispatch_steps [] c = Inr (None, c)"
| "dispatch_steps ((env, opcode) # steps) c =
     (case dispatch env opcode c of
        Inl p \<Rightarrow> Inl p
      | Inr (Some err, c') \<Rightarrow> Inr (Some err, c')
      | Inr (None, c') \<Rightarrow> dispatch_steps steps c')"

section \<open>The graphics buffer: what Clear reaches\<close>

lemma fold_clear_row:
  "Pixels (fold (\<lambda>x g'. g'\<lparr>Pixels := (Pixels g')(f x := 0)\<rparr>) xs g) a =
     (if a \<in> f ` set xs then 0 else Pixels g a)"
  by (induction xs arbitrary: g) auto

lemma fold_clear_rows:
  "Pixels (fold (\<lambda>y. fold (\<lambda>x g'. g'\<lparr>Pixels := (Pixels g')(f y x := 0)\<rparr>) xs) ys g) a =
     (if \<exists>y \<in> set ys. a \<in> f y ` set xs then 0 else Pixels g a)"
  by (induction ys arbitrary: g) (auto simp: fold_clear_row)

text \<open>The cells \<open>Clear\<close> zeroes are those of rows 0 to 30 and columns 0 to 62.\<close>

lemma Pixels_Clear:
  "Pixels (Clear g) a = (if \<exists>y < 31. \<exists>x < 63. a = y * 64 + x then 0 else Pixels g a)"
proof -
  have "(\<exists>y \<in> set [0..<31]. a \<in> (\<lambda>x. y * 64 + x) ` set [0..<63]) \<longleftrightarrow>
        (\<exists>y < 31. \<exists>x < 63. a = y * 64 + x)"
    by (simp only: set_upt image_iff Bex_def atLeastLessThan_iff) blast
  then show ?thesis
    unfolding Clear_def EachPixel_def GraphicsWidth_def GraphicsHeight_def
    by (simp only: fold_clear_rows) simp
qed

lemma last_column_not_visited:
  "\<not> (\<exists>y' < 31. \<exists>x' < 63. y * 64 + 63 = y' * 64 + (x'::nat))"
proof
  assume "\<exists>y' < 31. \<exists>x' < 63. y * 64 + 63 = y' * 64 + (x'::nat)"
  then obtain y' x' where h: "x' < 63" "y * 64 + 63 = y' * 64 + (x'::nat)"
    by blast
  have "(y * 64 + 63) mod 64 = 63"
    by simp
  moreover have "(y' * 64 + x') mod 64 = x'"
    using h(1) by simp
  ultimately show False
    using h by simp
qed

lemma last_row_not_visited:
  "\<not> (\<exists>y' < 31. \<exists>x' < 63. 31 * 64 + x = y' * 64 + (x'::nat))"
proof
  assume "\<exists>y' < 31. \<exists>x' < 63. 31 * 64 + x = y' * 64 + (x'::nat)"
  then obtain y' x' where h: "y' < 31" "x' < 63" "31 * 64 + x = y' * 64 + (x'::nat)"
    by blast
  from h(1) have "y' * 64 \<le> 30 * 64"
    by simp
  with h show False
    by linarith
qed

text \<open>
  Claim C2 says that after \<open>Clear\<close> all 2048 cells are 0, the last row and the last
  column included. The loops of \<open>EachPixel\<close> stop one short in both directions: every
  cell of column 63 (index \<open>y * 64 + 63\<close>) and every cell from row 31 on
  (index \<open>31 * 64 + x\<close>) keeps the value it had, so a pixel set there stays set.
\<close>

theorem Clear_keeps_last_column_and_row:
  "Pixels (Clear g) (y * GraphicsWidth + 63) = Pixels g (y * GraphicsWidth + 63) \<and>
   Pixels (Clear g) (31 * GraphicsWidth + x) = Pixels g (31 * GraphicsWidth + x)"
proof -
  have "Pixels (Clear g) (y * 64 + 63) = Pixels g (y * 64 + 63)"
    by (simp only: Pixels_Clear last_column_not_visited if_False)
  moreover have "Pixels (Clear g) (31 * 64 + x) = Pixels g (31 * 64 + x)"
    by (simp only: Pixels_Clear last_row_not_visited if_False)
  ultimately show ?thesis
    by (simp only: GraphicsWidth_def)
qed

section \<open>The graphics buffer: indices of a sprite write\<close>

lemma forM_succeeds:
  assumes "\<And>x s. x \<in> set xs \<Longrightarrow> \<exists>s'. f x s = Inr s'"
  shows "\<exists>s'. forM xs f s = Inr s'"
  using assms
proof (induction xs arbitrary: s)
  case Nil
  then show ?case
    by simp
next
  case (Cons x xs)
  from Cons.prems obtain s1 where "f x s = Inr s1"
    by (meson list.set_intros(1))
  moreover from Cons have "\<exists>s'. forM xs f s1 = Inr s'"
    by simp
  ultimately show ?case
    by simp
qed

lemma Set_in_range:
  assumes "unat x < 64" and "unat y < 32"
  shows "\<exists>r. Set x y on g = Inr r"
proof -
  have "unat (x + y * 64) \<le> unat x + unat y * 64"
    by (simp add: unat_word_ariths)
  with assms have "unat (x + y * 64) < 2048"
    by linarith
  then show ?thesis
    by (simp add: Set_def GraphicsWidth_def GraphicsHeight_def PixelsLen_def Let_def)
qed

lemma unat_coordinate:
  fixes v :: byte
  assumes "k < 128"
  shows "unat ((ucast v :: uint16) + of_nat k) = unat v + k"
proof -
  have v: "unat v < 256"
    using unsigned_less [of v, where 'a = nat] by simp
  then have a: "unat (ucast v :: uint16) = unat v"
    by (simp add: unsigned_ucast_eq take_bit_nat_eq_self)
  have b: "unat (of_nat k :: uint16) = k"
    using assms by (simp add: unat_of_nat)
  show ?thesis
    using v assms by (simp add: unat_word_ariths a b)
qed

lemma wrap_once:
  fixes v :: byte
  assumes "unat v + k < 2 * m" and "m \<le> 64" and "k < 128"
  shows "unat (if unat ((ucast v :: uint16) + of_nat k) \<ge> m
               then (ucast v :: uint16) + of_nat k - of_nat m
               else (ucast v :: uint16) + of_nat k) < m"
proof -
  note u = unat_coordinate [OF assms(3), of v]
  have m: "unat (of_nat m :: uint16) = m"
    using assms(2) by (simp add: unat_of_nat)
  show ?thesis
  proof (cases "m \<le> unat v + k")
    case True
    then have "of_nat m \<le> (ucast v :: uint16) + of_nat k"
      using u m by (simp add: word_le_nat_alt)
    then have "unat ((ucast v :: uint16) + of_nat k - of_nat m) = unat v + k - m"
      using u m by (simp add: unat_sub)
    with True u assms show ?thesis
      by simp
  next
    case False
    with u show ?thesis
      by simp
  qed
qed

lemma WriteSprite_pixel_in_range:
  assumes "unat x + xl < 128" and "unat y + yl < 64"
  shows "\<exists>s'. WriteSprite_pixel r x y yl xl s = Inr s'"
proof -
  have xl: "xl < 128" and yl: "yl < 128"
    using assms by linarith+
  let ?xp = "if unat ((ucast x :: uint16) + of_nat xl) \<ge> 64
             then (ucast x :: uint16) + of_nat xl - of_nat 64
             else (ucast x :: uint16) + of_nat xl"
  let ?yp = "if unat ((ucast y :: uint16) + of_nat yl) \<ge> 32
             then (ucast y :: uint16) + of_nat yl - of_nat 32
             else (ucast y :: uint16) + of_nat yl"
  have "unat ?xp < 64"
    using wrap_once [of x xl 64] assms(1) xl by simp
  moreover have "unat ?yp < 32"
    using wrap_once [of y yl 32] assms(2) yl by simp
  ultimately obtain hit g'
    where S: "Set ?xp ?yp (r AND drop_bit xl 0x80 = drop_bit xl 0x80) (snd s) = Inr (hit, g')"
    using Set_in_range by (metis surj_pair)
  show ?thesis
    unfolding WriteSprite_pixel_def Let_def GraphicsWidth_def GraphicsHeight_def
    by (simp only: S sum.case prod.case) blast
qed

text \<open>
  Where the single subtraction is enough: a start column of at most 120 and a sprite
  that ends before row 64 (any sprite that starts on the screen and has at most 32
  rows) is written without a panic.
\<close>

lemma WriteSprite_in_range:
  assumes "unat x \<le> 120" and "unat y + length sprite \<le> 64"
  shows "\<exists>r. WriteSprite sprite x y g = Inr r"
  unfolding WriteSprite_def
proof (rule forM_succeeds)
  fix yl s
  assume "yl \<in> set [0..<length sprite]"
  then have yl: "unat y + yl < 64"
    using assms(2) by simp
  show "\<exists>s'. forM [0..<8] (WriteSprite_pixel (sprite ! yl) x y yl) s = Inr s'"
  proof (rule forM_succeeds)
    fix xl s1
    assume "xl \<in> set [0..<8]"
    then have "unat x + xl < 128"
      using assms(1) by simp
    then show "\<exists>s'. WriteSprite_pixel (sprite ! yl) x y yl xl s1 = Inr s'"
      using yl by (rule WriteSprite_pixel_in_range)
  qed
qed

text \<open>
  Claim C6 says that \<open>WriteSprite\<close> and \<open>Set\<close> only touch indices below 2048 for all
  byte coordinates. With \<open>y = 64\<close> the single subtraction leaves row 32, \<open>Set\<close> computes
  index \<open>0 + 32 * 64 = 2048\<close>, and the access to \<open>g.Pixels[2048]\<close> panics, whatever
  the buffer and the sprite row hold; a one-row sprite is enough. The draw opcode
  \<open>D011\<close> with \<open>V[0] = 0\<close> and \<open>V[1] = 64\<close> reaches it.
\<close>

theorem WriteSprite_row_64_out_of_range:
  "WriteSprite [r] 0 64 g = Inl (IndexOutOfRange 2048 2048) \<and>
   dispatch env 0xD011 (c\<lparr>V := (V c)(0 := 0, 1 := 64), I := 0\<rparr>) =
     Inl (IndexOutOfRange 2048 2048)"
proof -
  have w: "WriteSprite [r] 0 64 g = Inl (IndexOutOfRange 2048 2048)" for r g
    by (simp add: WriteSprite_def WriteSprite_pixel_def Set_def GraphicsWidth_def
        GraphicsHeight_def PixelsLen_def upt_conv_Cons)
  have "dispatch env 0xD011 (c\<lparr>V := (V c)(0 := 0, 1 := 64), I := 0\<rparr>) =
     Inl (IndexOutOfRange 2048 2048)"
    by (simp add: dispatch_def dispatch_0xD_def MemoryLen_def bindP_def w)
  with w show ?thesis
    by simp
qed

section \<open>Dispatch: single opcodes\<close>

text \<open>
  The nested switches of classes 0, 9, E and F end in a default case that returns
  \<open>UnknownOpcode\<close> with the opcode, and leave the machine as it is.
\<close>

lemma dispatch_unmatched_0:
  "opcode AND 0xF000 = 0x0000 \<Longrightarrow> opcode \<noteq> 0x00E0 \<Longrightarrow> opcode \<noteq> 0x00EE \<Longrightarrow>
     dispatch env opcode c = Inr (Some (UnknownOpcode opcode), c)"
  by (simp add: dispatch_def dispatch_0x0_def)

lemma dispatch_unmatched_9:
  "opcode AND 0xF000 = 0x9000 \<Longrightarrow> opcode AND 0x000F \<noteq> 0x0000 \<Longrightarrow>
     dispatch env opcode c = Inr (Some (UnknownOpcode opcode), c)"
  by (simp add: dispatch_def dispatch_0x9_def)

lemma dispatch_unmatched_E:
  "opcode AND 0xF000 = 0xE000 \<Longrightarrow> opcode AND 0x00FF \<notin> {0x9E, 0xA1} \<Longrightarrow>
     dispatch env opcode c = Inr (Some (UnknownOpcode opcode), c)"
  by (simp add: dispatch_def dispatch_0xE_def)

lemma dispatch_unmatched_F:
  "opcode AND 0xF000 = 0xF000 \<Longrightarrow>
   opcode AND 0x00FF \<notin> {0x07, 0x0A, 0x15, 0x18, 0x1E, 0x29, 0x33, 0x55, 0x65} \<Longrightarrow>
     dispatch env opcode c = Inr (Some (UnknownOpcode opcode), c)"
  by (simp add: dispatch_def dispatch_0xF_def)

text \<open>Class 8 has no such case: every other bottom nibble returns nil and changes nothing.\<close>

lemma dispatch_unmatched_8:
  assumes "opcode AND 0xF000 = 0x8000"
    and "opcode AND 0x000F \<notin> {0x0, 0x1, 0x2, 0x3, 0x4, 0x5, 0x6, 0x7, 0xE}"
  shows "dispatch env opcode c = Inr (None, c)"
  using assms by (simp add: dispatch_def dispatch_0x8_def Let_def)

text \<open>\<open>5XY0\<close> for every X and Y: the comparison is with \<open>V[0]\<close>.\<close>

lemma dispatch_5XY0:
  assumes "opcode AND 0xF000 = 0x5000"
  shows "dispatch env opcode c =
     Inr (None, c\<lparr>ProgramCounter := ProgramCounter c +
                   (if V c (unat (drop_bit 8 (opcode AND 0x0F00))) = V c 0 then 4 else 2)\<rparr>)"
proof -
  have "drop_bit 8 (opcode AND 0x00F0) = 0"
    by (rule bit_word_eqI) (auto simp: bit_simps)
  with assms show ?thesis
    by (simp add: dispatch_def Let_def)
qed

text \<open>\<open>CXNN\<close> for every X and NN: the sum of NN and the random value, modulo 256.\<close>

lemma dispatch_CXNN:
  assumes "opcode AND 0xF000 = 0xC000"
  shows "dispatch env opcode c =
     Inr (None, c\<lparr>V := (V c)(unat (drop_bit 8 (opcode AND 0x0F00)) :=
                        ucast opcode + word_of_int (Intn255 env)),
                  ProgramCounter := ProgramCounter c + 2\<rparr>)"
  using assms by (simp add: dispatch_def Let_def)

text \<open>
  Claim C1 says that every opcode matching no pattern at its nesting level gives an
  \<open>UnknownOpcode\<close> error, those of class 8 with bottom nibble outside
  0,1,2,3,4,5,6,7,E included. The inner switch of class 8 has no default case: opcode
  \<open>0x8008\<close> returns nil, with the machine (program counter included) as it was.
\<close>

theorem dispatch_0x8008_returns_nil:
  "dispatch env 0x8008 c = Inr (None, c)"
  by (simp add: dispatch_def dispatch_0x8_def)

text \<open>
  Claim C3 says that \<open>5XY0\<close> skips exactly when \<open>V[X] = V[Y]\<close>, for every Y. The source
  computes the second index as \<open>(opcode & 0x00F0) >> 8\<close>, which is 0, and so compares
  \<open>V[X]\<close> with \<open>V[0]\<close>: for opcode \<open>0x5120\<close> with \<open>V[1] = V[2] = 5\<close> and \<open>V[0] = 0\<close>
  the program counter advances by 2, not by 4.
\<close>

theorem dispatch_0x5120_compares_with_V0:
  "dispatch env 0x5120 (c\<lparr>V := (V c)(0 := 0, 1 := 5, 2 := 5)\<rparr>) =
     Inr (None, c\<lparr>V := (V c)(0 := 0, 1 := 5, 2 := 5),
                  ProgramCounter := ProgramCounter c + 2\<rparr>)"
  by (simp add: dispatch_def)

text \<open>
  Claim C4 says that \<open>CXNN\<close> sets \<open>V[X]\<close> to a random byte combined with NN by AND, so
  that no bit outside NN is set. The source adds: for opcode \<open>0xC000\<close> (NN = 0) and the
  random value 1, \<open>V[0]\<close> becomes 1. The program counter does advance by 2.
\<close>

theorem dispatch_0xC000_adds_random:
  "dispatch (env\<lparr>Intn255 := 1\<rparr>) 0xC000 c =
     Inr (None, c\<lparr>V := (V c)(0 := 1), ProgramCounter := ProgramCounter c + 2\<rparr>)"
proof -
  have e: "(49153 :: byte) = 1"
    by simp
  show ?thesis
    by (simp add: dispatch_def e)
qed

section \<open>Dispatch: which failures it returns\<close>

lemma dispatch_0x0_error:
  "dispatch_0x0 opcode c = Inr (Some e, c') \<Longrightarrow> e = UnknownOpcode opcode \<and> c' = c"
  by (auto simp: dispatch_0x0_def Let_def split: if_splits)

lemma dispatch_0x2_no_error:
  "dispatch_0x2 opcode c \<noteq> Inr (Some e, c')"
  by (auto simp: dispatch_0x2_def Let_def split: if_splits)

lemma dispatch_0x8_no_error:
  "fst (dispatch_0x8 opcode c) = None"
  by (simp add: dispatch_0x8_def Let_def)

lemma dispatch_0x9_error:
  "dispatch_0x9 opcode c = (Some e, c') \<Longrightarrow> e = UnknownOpcode opcode \<and> c' = c"
  by (auto simp: dispatch_0x9_def Let_def split: if_splits)

lemma dispatch_0xD_no_error:
  "dispatch_0xD opcode c \<noteq> Inr (Some e, c')"
  by (auto simp: dispatch_0xD_def Let_def bindP_def split: if_splits sum.splits prod.splits)

lemma dispatch_0xE_error:
  "dispatch_0xE env opcode c = (Some e, c') \<Longrightarrow>
     c' = c \<or> c' = c\<lparr>ProgramCounter := ProgramCounter c + 2\<rparr>"
  by (auto simp: dispatch_0xE_def Let_def split: if_splits prod.splits option.splits)

lemma dispatch_0xF_error:
  "dispatch_0xF env opcode c = Inr (Some e, c') \<Longrightarrow> c' = c"
  by (auto simp: dispatch_0xF_def Let_def bindP_def
      split: if_splits sum.splits prod.splits option.splits)

text \<open>
  A dispatch that returns an error has changed nothing, or only moved the program
  counter by 2 (the two skip-on-key opcodes move it before they ask for the key).
\<close>

lemma dispatch_error_state:
  assumes "dispatch env opcode c = Inr (Some e, c')"
  shows "c' = c \<or> c' = c\<lparr>ProgramCounter := ProgramCounter c + 2\<rparr>"
  using assms dispatch_0x8_no_error [of opcode c]
  by (auto simp: dispatch_def Let_def dispatch_0x2_no_error dispatch_0xD_no_error
      split: if_splits
      dest: dispatch_0x0_error dispatch_0x9_error dispatch_0xE_error dispatch_0xF_error)

text \<open>An \<open>UnknownOpcode\<close> that dispatch returns carries the dispatched opcode.\<close>

lemma getKey_no_UnknownOpcode:
  "getKey env \<noteq> (b, Some (UnknownOpcode w))"
  by (auto simp: getKey_def split: prod.splits option.splits)

lemma dispatch_0xE_UnknownOpcode:
  assumes "dispatch_0xE env opcode c = (Some (UnknownOpcode w), c')"
  shows "w = opcode \<and> c' = c"
  using assms getKey_no_UnknownOpcode [of env _ w]
  by (auto simp: dispatch_0xE_def Let_def split: if_splits prod.splits option.splits)

lemma dispatch_0xF_UnknownOpcode:
  assumes "dispatch_0xF env opcode c = Inr (Some (UnknownOpcode w), c')"
  shows "w = opcode \<and> c' = c"
  using assms getKey_no_UnknownOpcode [of env _ w]
  by (auto simp: dispatch_0xF_def Let_def bindP_def
      split: if_splits sum.splits prod.splits option.splits)

lemma dispatch_UnknownOpcode_carries_opcode:
  assumes "dispatch env opcode c = Inr (Some (UnknownOpcode w), c')"
  shows "w = opcode \<and> c' = c"
  using assms dispatch_0x8_no_error [of opcode c]
  by (auto simp: dispatch_def Let_def dispatch_0x2_no_error dispatch_0xD_no_error
      split: if_splits
      dest: dispatch_0x0_error dispatch_0x9_error dispatch_0xE_UnknownOpcode
        dispatch_0xF_UnknownOpcode)

lemma getKey_error:
  "keypad env = (b, Some err) \<Longrightarrow>
     getKey env = (b, Some (if err = ErrQuit then ErrQuit
                            else ErrorString (''chip8: unable to get key from keypad: '' @ Error err)))"
  by (simp add: getKey_def)

lemma dispatch_key_error:
  assumes "opcode AND 0xF000 = 0xE000 \<and> (opcode AND 0x00FF = 0x9E \<or> opcode AND 0x00FF = 0xA1) \<or>
           opcode AND 0xF000 = 0xF000 \<and> opcode AND 0x00FF = 0x0A"
    and "getKey env = (b, Some e)"
  shows "\<exists>c'. dispatch env opcode c = Inr (Some e, c')"
  using assms by (auto simp: dispatch_def dispatch_0xE_def dispatch_0xF_def Let_def)

section \<open>Dispatch: call and return\<close>

lemma dispatch_call:
  assumes "opcode AND 0xF000 = 0x2000"
  shows "dispatch env opcode c =
     (if unat (StackPointer c + 1) < 16 then
        Inr (None, c\<lparr>StackPointer := StackPointer c + 1,
                     Stack := (Stack c)(unat (StackPointer c + 1) := ProgramCounter c),
                     ProgramCounter := opcode AND 0x0FFF\<rparr>)
      else Inl (IndexOutOfRange (unat (StackPointer c + 1)) 16))"
  using assms by (simp add: dispatch_def dispatch_0x2_def StackLen_def Let_def)

lemma dispatch_return_empty:
  "StackPointer c = 0 \<Longrightarrow>
     dispatch env 0x00EE c =
       Inr (None, c\<lparr>ProgramCounter := Stack c 0 + 2, StackPointer := 255\<rparr>)"
  by (simp add: dispatch_def dispatch_0x0_def StackLen_def Let_def)

lemma dispatch_return_255:
  "StackPointer c = 255 \<Longrightarrow> dispatch env 0x00EE c = Inl (IndexOutOfRange 255 StackLen)"
  by (simp add: dispatch_def dispatch_0x0_def StackLen_def Let_def)

lemma dispatch_seq_snoc:
  "dispatch_seq env ops c = Inr (None, c') \<Longrightarrow>
     dispatch_seq env (ops @ [opcode]) c =
       (case dispatch env opcode c' of Inl p \<Rightarrow> Inl p | Inr (err, c'') \<Rightarrow> Inr (err, c''))"
proof (induction ops arbitrary: c)
  case Nil
  then show ?case
    by (auto split: sum.splits option.splits)
next
  case (Cons a ops)
  then show ?case
    by (auto split: sum.splits option.splits)
qed

text \<open>
  After \<open>n \<le> 15\<close> calls from stack pointer 0: the pointer is \<open>n\<close>, slot \<open>k\<close> for
  \<open>1 \<le> k \<le> n\<close> holds the program counter at the \<open>k\<close>-th call (the start value for
  the first, the target of the call before for the others), every other slot is as it was.
\<close>

lemma nested_calls_state:
  assumes "StackPointer c = 0"
  shows "(\<forall>opcode \<in> set ops. opcode AND 0xF000 = 0x2000) \<Longrightarrow> length ops \<le> 15 \<Longrightarrow>
     \<exists>c'. dispatch_seq env ops c = Inr (None, c') \<and>
          unat (StackPointer c') = length ops \<and>
          ProgramCounter c' = (if ops = [] then ProgramCounter c else last ops AND 0x0FFF) \<and>
          (\<forall>k. Stack c' k =
             (if 1 \<le> k \<and> k \<le> length ops
              then (if k = 1 then ProgramCounter c else ops ! (k - 2) AND 0x0FFF)
              else Stack c k))"
proof (induction ops rule: rev_induct)
  case Nil
  then show ?case
    using assms by simp
next
  case (snoc opcode ops)
  then obtain c' where seq: "dispatch_seq env ops c = Inr (None, c')"
    and sp: "unat (StackPointer c') = length ops"
    and pc: "ProgramCounter c' = (if ops = [] then ProgramCounter c else last ops AND 0x0FFF)"
    and st: "\<forall>k. Stack c' k =
             (if 1 \<le> k \<and> k \<le> length ops
              then (if k = 1 then ProgramCounter c else ops ! (k - 2) AND 0x0FFF)
              else Stack c k)"
    by auto
  from snoc.prems have call: "opcode AND 0xF000 = 0x2000" and len: "length ops < 15"
    by auto
  have sp1: "unat (StackPointer c' + 1) = Suc (length ops)"
    using sp len by (simp add: unat_word_ariths)
  let ?c'' = "c'\<lparr>StackPointer := StackPointer c' + 1,
                     Stack := (Stack c')(Suc (length ops) := ProgramCounter c'),
                     ProgramCounter := opcode AND 0x0FFF\<rparr>"
  have "dispatch env opcode c' = Inr (None, ?c'')"
    using len by (simp add: dispatch_call [OF call] sp1)
  then have "dispatch_seq env (ops @ [opcode]) c = Inr (None, ?c'')"
    by (simp add: dispatch_seq_snoc [OF seq])
  moreover have "\<forall>k. Stack ?c'' k =
             (if 1 \<le> k \<and> k \<le> length (ops @ [opcode])
              then (if k = 1 then ProgramCounter c else (ops @ [opcode]) ! (k - 2) AND 0x0FFF)
              else Stack c k)"
  proof
    fix k
    show "Stack ?c'' k =
             (if 1 \<le> k \<and> k \<le> length (ops @ [opcode])
              then (if k = 1 then ProgramCounter c else (ops @ [opcode]) ! (k - 2) AND 0x0FFF)
              else Stack c k)"
    proof (cases "k = Suc (length ops)")
      case True
      then show ?thesis
        using pc by (cases ops rule: rev_cases) (auto simp: nth_append)
    next
      case False
      then show ?thesis
        using st by (auto simp: nth_append)
    qed
  qed
  ultimately show ?case
    using sp1 by simp
qed

subsection \<open>What the other opcodes leave alone\<close>

lemma forM_keeps:
  assumes "\<And>x s s'. f x s = Inr s' \<Longrightarrow> g s' = g s"
  shows "forM xs f s = Inr s' \<Longrightarrow> g s' = g s"
proof (induction xs arbitrary: s)
  case Nil
  then show ?case
    by simp
next
  case (Cons x xs)
  then obtain s1 where 1: "f x s = Inr s1" and 2: "forM xs f s1 = Inr s'"
    by (auto split: sum.splits)
  from 2 have "g s' = g s1"
    by (rule Cons.IH)
  also from 1 have "g s1 = g s"
    by (rule assms)
  finally show ?case .
qed

lemma Memory_set_stack:
  "Memory_set a v c = Inr c' \<Longrightarrow> Stack c' = Stack c \<and> StackPointer c' = StackPointer c"
  by (auto simp: Memory_set_def split: if_splits)

lemma dispatch_0x0_stack:
  "opcode \<noteq> 0x00EE \<Longrightarrow> dispatch_0x0 opcode c = Inr (err, c') \<Longrightarrow>
     Stack c' = Stack c \<and> StackPointer c' = StackPointer c"
  by (auto simp: dispatch_0x0_def split: if_splits)

lemma dispatch_0x8_stack:
  "dispatch_0x8 opcode c = (err, c') \<Longrightarrow>
     Stack c' = Stack c \<and> StackPointer c' = StackPointer c"
  by (auto simp: dispatch_0x8_def Let_def split: if_splits)

lemma dispatch_0x9_stack:
  "dispatch_0x9 opcode c = (err, c') \<Longrightarrow>
     Stack c' = Stack c \<and> StackPointer c' = StackPointer c"
  by (auto simp: dispatch_0x9_def Let_def split: if_splits)

lemma dispatch_0xD_stack:
  "dispatch_0xD opcode c = Inr (err, c') \<Longrightarrow>
     Stack c' = Stack c \<and> StackPointer c' = StackPointer c"
  by (auto simp: dispatch_0xD_def Let_def bindP_def split: if_splits sum.splits prod.splits)

lemma dispatch_0xE_stack:
  "dispatch_0xE env opcode c = (err, c') \<Longrightarrow>
     Stack c' = Stack c \<and> StackPointer c' = StackPointer c"
  by (auto simp: dispatch_0xE_def Let_def split: if_splits prod.splits option.splits)


lemma store_registers_stack:
  "forM xs (\<lambda>i c'. Memory_set (I c' + of_nat i) (V c' i) c') c = Inr c1 \<Longrightarrow>
     (Stack c1, StackPointer c1) = (Stack c, StackPointer c)"
  by (rule forM_keeps [where g = "\<lambda>c. (Stack c, StackPointer c)"])
    (auto dest: Memory_set_stack)

lemma load_registers_stack:
  "forM xs (\<lambda>i c'. bindP (Memory_at (I c' + of_nat i) c') (\<lambda>b. Inr (c'\<lparr>V := (V c')(i := b)\<rparr>))) c
     = Inr c1 \<Longrightarrow>
     (Stack c1, StackPointer c1) = (Stack c, StackPointer c)"
  by (rule forM_keeps [where g = "\<lambda>c. (Stack c, StackPointer c)"])
    (auto simp: bindP_def split: sum.splits)

lemma bindP_eq_Inr:
  "bindP m f = Inr r \<longleftrightarrow> (\<exists>a. m = Inr a \<and> f a = Inr r)"
  by (cases m) (simp_all add: bindP_def)

lemma dispatch_0xF_stack:
  "dispatch_0xF env opcode c = Inr (err, c') \<Longrightarrow>
     Stack c' = Stack c \<and> StackPointer c' = StackPointer c"
  by (auto simp: dispatch_0xF_def Let_def bindP_eq_Inr
      split: if_splits prod.splits option.splits
      dest!: Memory_set_stack store_registers_stack load_registers_stack)

text \<open>Every opcode but the call and the return leaves the stack and its pointer alone.\<close>

lemma dispatch_stack:
  assumes "opcode AND 0xF000 \<noteq> 0x2000" and "opcode \<noteq> 0x00EE"
    and "dispatch env opcode c = Inr (err, c')"
  shows "Stack c' = Stack c \<and> StackPointer c' = StackPointer c"
  using assms
  by (auto simp: dispatch_def Let_def split: if_splits
      dest: dispatch_0x0_stack dispatch_0x8_stack dispatch_0x9_stack dispatch_0xD_stack
        dispatch_0xE_stack dispatch_0xF_stack)

lemma dispatch_steps_stack:
  assumes "\<forall>(env, opcode) \<in> set steps. opcode AND 0xF000 \<noteq> 0x2000 \<and> opcode \<noteq> 0x00EE"
  shows "dispatch_steps steps c = Inr (err, c') \<Longrightarrow>
     Stack c' = Stack c \<and> StackPointer c' = StackPointer c"
  using assms
proof (induction steps arbitrary: c)
  case Nil
  then show ?case
    by simp
next
  case (Cons step steps)
  obtain env opcode where step: "step = (env, opcode)"
    by (cases step)
  from Cons.prems(2) step have op: "opcode AND 0xF000 \<noteq> 0x2000" "opcode \<noteq> 0x00EE"
    by auto
  show ?case
  proof (cases "dispatch env opcode c")
    case (Inl p)
    with Cons.prems(1) step show ?thesis
      by simp
  next
    case (Inr r)
    obtain e1 c1 where r: "r = (e1, c1)"
      by (cases r)
    from Inr r have d: "dispatch env opcode c = Inr (e1, c1)"
      by simp
    from dispatch_stack [OF op d] have f1: "Stack c1 = Stack c \<and> StackPointer c1 = StackPointer c" .
    show ?thesis
    proof (cases e1)
      case None
      with Cons.prems(1) step d have "dispatch_steps steps c1 = Inr (err, c')"
        by simp
      moreover from Cons.prems(2)
      have "\<forall>(env, opcode) \<in> set steps. opcode AND 0xF000 \<noteq> 0x2000 \<and> opcode \<noteq> 0x00EE"
        by simp
      ultimately have "Stack c' = Stack c1 \<and> StackPointer c' = StackPointer c1"
        by (rule Cons.IH)
      with f1 show ?thesis
        by simp
    next
      case (Some e)
      with Cons.prems(1) step d have "c' = c1"
        by simp
      with f1 show ?thesis
        by simp
    qed
  qed
qed

lemma dispatch_return:
  "unat (StackPointer c) < 16 \<Longrightarrow>
     dispatch env 0x00EE c =
       Inr (None, c\<lparr>ProgramCounter := Stack c (unat (StackPointer c)) + 2,
                    StackPointer := StackPointer c - 1\<rparr>)"
  by (simp add: dispatch_def dispatch_0x0_def StackLen_def Let_def)

subsection \<open>A call and its return\<close>

text \<open>
  Claim C7, as amended: a call opcode \<open>2NNN\<close> executed on a machine whose incremented
  stack pointer is below 16, followed by any instructions that are neither calls nor
  returns and that all return nil, followed by the return opcode \<open>00EE\<close>, leaves the
  program counter at the call site's program counter plus 2 and the stack pointer at
  its value before the call. When the incremented stack pointer is not below 16 the
  call panics on the stack index and nothing after it runs.
\<close>

theorem call_then_return_restores_pc:
  assumes "opcode AND 0xF000 = 0x2000"
    and "\<forall>(env, opcode) \<in> set body. opcode AND 0xF000 \<noteq> 0x2000 \<and> opcode \<noteq> 0x00EE"
  shows "if unat (StackPointer c + 1) < 16
         then \<exists>c1. dispatch env opcode c = Inr (None, c1) \<and>
                ProgramCounter c1 = opcode AND 0x0FFF \<and>
                (\<forall>c2. dispatch_steps body c1 = Inr (None, c2) \<longrightarrow>
                   (\<exists>c3. dispatch env' 0x00EE c2 = Inr (None, c3) \<and>
                      ProgramCounter c3 = ProgramCounter c + 2 \<and>
                      StackPointer c3 = StackPointer c))
         else dispatch env opcode c = Inl (IndexOutOfRange (unat (StackPointer c + 1)) StackLen)"
proof (cases "unat (StackPointer c + 1) < 16")
  case False
  then show ?thesis
    by (simp add: dispatch_call [OF assms(1)] StackLen_def)
next
  case True
  let ?c1 = "c\<lparr>StackPointer := StackPointer c + 1,
                Stack := (Stack c)(unat (StackPointer c + 1) := ProgramCounter c),
                ProgramCounter := opcode AND 0x0FFF\<rparr>"
  have call: "dispatch env opcode c = Inr (None, ?c1)"
    using True by (simp add: dispatch_call [OF assms(1)])
  have ret: "\<exists>c3. dispatch env' 0x00EE c2 = Inr (None, c3) \<and>
                ProgramCounter c3 = ProgramCounter c + 2 \<and>
                StackPointer c3 = StackPointer c"
    if body: "dispatch_steps body ?c1 = Inr (None, c2)" for c2
  proof -
    from dispatch_steps_stack [OF assms(2) body]
    have st: "Stack c2 = Stack ?c1" and sp: "StackPointer c2 = StackPointer ?c1"
      by simp_all
    from sp True have "unat (StackPointer c2) < 16"
      by simp
    then have "dispatch env' 0x00EE c2 =
        Inr (None, c2\<lparr>ProgramCounter := Stack c2 (unat (StackPointer c2)) + 2,
                     StackPointer := StackPointer c2 - 1\<rparr>)"
      by (rule dispatch_return)
    with st sp show ?thesis
      by simp
  qed
  from True call ret show ?thesis
    by simp
qed

text \<open>
  On a new machine: a call to 0x300 from 0x200, a body that sets \<open>V[0]\<close> to 5 and adds
  1 to it, then the return, which ends at 0x202.
\<close>

theorem call_then_return_restores_pc_witness:
  "(0x2300 :: uint16) AND 0xF000 = 0x2000 \<and>
   (0x6005 :: uint16) AND 0xF000 \<noteq> 0x2000 \<and> (0x7001 :: uint16) AND 0xF000 \<noteq> 0x2000 \<and>
   unat (StackPointer NewCPU + 1) < 16 \<and>
   (\<exists>c1 c2 c3.
      dispatch \<lparr>Intn255 = 0, Keypad = None\<rparr> 0x2300 NewCPU = Inr (None, c1) \<and>
      ProgramCounter c1 = 0x300 \<and>
      dispatch_steps [(\<lparr>Intn255 = 0, Keypad = None\<rparr>, 0x6005),
                      (\<lparr>Intn255 = 0, Keypad = None\<rparr>, 0x7001)] c1 = Inr (None, c2) \<and>
      V c2 0 = 6 \<and> ProgramCounter c2 = 0x304 \<and>
      dispatch \<lparr>Intn255 = 0, Keypad = None\<rparr> 0x00EE c2 = Inr (None, c3) \<and>
      ProgramCounter c3 = 0x202 \<and>
      StackPointer c3 = 0)"
proof -
  let ?env = "\<lparr>Intn255 = 0, Keypad = None\<rparr>"
  let ?body = "[(?env, 0x6005 :: uint16), (?env, 0x7001)]"
  have h1: "(0x2300 :: uint16) AND 0xF000 = 0x2000"
    by simp
  have h2: "\<forall>(env, opcode) \<in> set ?body. opcode AND 0xF000 \<noteq> 0x2000 \<and> opcode \<noteq> 0x00EE"
    by simp
  have room: "unat (StackPointer NewCPU + 1) < 16"
    by (simp add: NewCPU_def)
  from call_then_return_restores_pc [OF h1 h2, of NewCPU ?env ?env] room
  obtain c1 where call: "dispatch ?env 0x2300 NewCPU = Inr (None, c1)"
    and pc1: "ProgramCounter c1 = 0x2300 AND 0x0FFF"
    and ret: "\<forall>c2. dispatch_steps ?body c1 = Inr (None, c2) \<longrightarrow>
                (\<exists>c3. dispatch ?env 0x00EE c2 = Inr (None, c3) \<and>
                   ProgramCounter c3 = ProgramCounter NewCPU + 2 \<and>
                   StackPointer c3 = StackPointer NewCPU)"
    by auto
  let ?c2 = "c1\<lparr>ProgramCounter := ProgramCounter c1 + 2 + 2, V := (V c1)(0 := 6)\<rparr>"
  have e: "(53254 :: byte) = 6"
    by simp
  have body: "dispatch_steps ?body c1 = Inr (None, ?c2)"
    by (simp add: dispatch_def e)
  with ret obtain c3 where "dispatch ?env 0x00EE ?c2 = Inr (None, c3)"
    and "ProgramCounter c3 = ProgramCounter NewCPU + 2"
    and "StackPointer c3 = StackPointer NewCPU"
    by blast
  with call pc1 body room show ?thesis
    by (auto simp: NewCPU_def)
qed

text \<open>
  The claim as it was stated speaks of every call. At stack pointer 15 the call indexes
  slot 16 and panics, so no return follows and no program counter is restored; sixteen
  calls in a row on a new machine arrive there.
\<close>

theorem call_at_stack_pointer_15_panics:
  "dispatch \<lparr>Intn255 = 0, Keypad = None\<rparr> 0x2300 (NewCPU\<lparr>StackPointer := 15\<rparr>) =
     Inl (IndexOutOfRange 16 16) \<and>
   dispatch_seq \<lparr>Intn255 = 0, Keypad = None\<rparr> (replicate 16 0x2300) NewCPU =
     Inl (IndexOutOfRange 16 16)"
proof -
  let ?env = "\<lparr>Intn255 = 0, Keypad = None\<rparr>"
  have call: "(0x2300 :: uint16) AND 0xF000 = 0x2000"
    by simp
  have a: "dispatch ?env 0x2300 (NewCPU\<lparr>StackPointer := 15\<rparr>) = Inl (IndexOutOfRange 16 16)"
    by (simp add: dispatch_call [OF call])
  have "StackPointer NewCPU = 0"
    by (simp add: NewCPU_def)
  from nested_calls_state [OF this, of "replicate 15 0x2300" ?env]
  obtain c' where seq: "dispatch_seq ?env (replicate 15 0x2300) NewCPU = Inr (None, c')"
    and sp: "unat (StackPointer c') = 15"
    by auto
  from sp have "unat (StackPointer c' + 1) = 16"
    by (simp add: unat_word_ariths)
  then have "dispatch ?env 0x2300 c' = Inl (IndexOutOfRange 16 16)"
    by (simp add: dispatch_call [OF call])
  then have "dispatch_seq ?env (replicate 15 0x2300 @ [0x2300]) NewCPU = Inl (IndexOutOfRange 16 16)"
    by (simp add: dispatch_seq_snoc [OF seq])
  moreover have "replicate 15 (0x2300 :: uint16) @ replicate 1 0x2300 = replicate (15 + 1) 0x2300"
    by (rule replicate_add [symmetric])
  then have "replicate 15 (0x2300 :: uint16) @ [0x2300] = replicate 16 0x2300"
    by simp
  ultimately show ?thesis
    using a by simp
qed

text \<open>
  Claim C10: the call opcode increments the stack pointer before it stores, so nested
  calls from stack pointer 0 (a new machine) fill slots 1 to 15 and never write slot 0;
  a 16th nested call indexes slot 16 of the 16-entry array, and a return at stack
  pointer 0 wraps the pointer to 255. In the model: up to 15 calls in a row all return
  nil, leave the pointer at their number, leave slot 0 and the slots above as they
  were and store the call sites in slots 1 up to their number; after 15 of them any
  further call panics with index 16; a return at pointer 0 returns nil with the pointer
  at 255 (having read the never-written slot 0), and a second return then panics with
  index 255.
\<close>

theorem nested_calls_stack_slots:
  assumes "StackPointer c = 0"
    and "\<forall>opcode \<in> set ops. opcode AND 0xF000 = 0x2000"
    and "length ops \<le> 15"
  shows "\<exists>c'. dispatch_seq env ops c = Inr (None, c') \<and>
           unat (StackPointer c') = length ops \<and>
           Stack c' 0 = Stack c 0 \<and>
           (\<forall>k. Stack c' k =
              (if 1 \<le> k \<and> k \<le> length ops
               then (if k = 1 then ProgramCounter c else ops ! (k - 2) AND 0x0FFF)
               else Stack c k)) \<and>
           (length ops = 15 \<longrightarrow>
              (\<forall>opcode. opcode AND 0xF000 = 0x2000 \<longrightarrow>
                 dispatch env opcode c' = Inl (IndexOutOfRange 16 StackLen))) \<and>
           dispatch env 0x00EE c =
             Inr (None, c\<lparr>ProgramCounter := Stack c 0 + 2, StackPointer := 255\<rparr>) \<and>
           dispatch env 0x00EE (c\<lparr>ProgramCounter := Stack c 0 + 2, StackPointer := 255\<rparr>) =
             Inl (IndexOutOfRange 255 StackLen)"
proof -
  from nested_calls_state [OF assms] obtain c'
    where seq: "dispatch_seq env ops c = Inr (None, c')"
      and sp: "unat (StackPointer c') = length ops"
      and st: "\<forall>k. Stack c' k =
              (if 1 \<le> k \<and> k \<le> length ops
               then (if k = 1 then ProgramCounter c else ops ! (k - 2) AND 0x0FFF)
               else Stack c k)"
    by blast
  from st have s0: "Stack c' 0 = Stack c 0"
    by simp
  have full: "dispatch env opcode c' = Inl (IndexOutOfRange 16 StackLen)"
    if "length ops = 15" and call: "opcode AND 0xF000 = 0x2000" for opcode
  proof -
    from sp that(1) have "unat (StackPointer c' + 1) = 16"
      by (simp add: unat_word_ariths)
    then show ?thesis
      by (simp add: dispatch_call [OF call] StackLen_def)
  qed
  have under: "dispatch env 0x00EE (c\<lparr>ProgramCounter := Stack c 0 + 2, StackPointer := 255\<rparr>) =
      Inl (IndexOutOfRange 255 StackLen)"
    by (rule dispatch_return_255) simp
  from seq sp s0 st full dispatch_return_empty [OF assms(1)] under show ?thesis
    by blast
qed

text \<open>Fifteen calls to 0x300 on a new machine, then a sixteenth; and a return at once.\<close>

theorem nested_calls_stack_slots_witness:
  "StackPointer NewCPU = 0 \<and>
   (0x2300 :: uint16) AND 0xF000 = 0x2000 \<and>
   length (replicate 15 (0x2300 :: uint16)) \<le> 15 \<and>
   (\<exists>c'. dispatch_seq \<lparr>Intn255 = 0, Keypad = None\<rparr> (replicate 15 0x2300) NewCPU =
            Inr (None, c') \<and>
      unat (StackPointer c') = 15 \<and>
      Stack c' 0 = 0 \<and> Stack c' 1 = 0x200 \<and> Stack c' 2 = 0x300 \<and> Stack c' 15 = 0x300 \<and>
      dispatch \<lparr>Intn255 = 0, Keypad = None\<rparr> 0x2300 c' = Inl (IndexOutOfRange 16 16)) \<and>
   dispatch \<lparr>Intn255 = 0, Keypad = None\<rparr> 0x00EE NewCPU =
     Inr (None, NewCPU\<lparr>ProgramCounter := 2, StackPointer := 255\<rparr>)"
proof -
  let ?env = "\<lparr>Intn255 = 0, Keypad = None\<rparr>"
  let ?ops = "replicate 15 (0x2300 :: uint16)"
  have h1: "StackPointer NewCPU = 0"
    by (simp add: NewCPU_def)
  have h2: "\<forall>opcode \<in> set ?ops. opcode AND 0xF000 = 0x2000"
    by simp
  have h3: "length ?ops \<le> 15"
    by simp
  from nested_calls_stack_slots [OF h1 h2 h3, of ?env] obtain c'
    where seq: "dispatch_seq ?env ?ops NewCPU = Inr (None, c')"
      and sp: "unat (StackPointer c') = length ?ops"
      and st: "\<forall>k. Stack c' k =
              (if 1 \<le> k \<and> k \<le> length ?ops
               then (if k = 1 then ProgramCounter NewCPU else ?ops ! (k - 2) AND 0x0FFF)
               else Stack NewCPU k)"
      and full: "length ?ops = 15 \<longrightarrow>
              (\<forall>opcode. opcode AND 0xF000 = 0x2000 \<longrightarrow>
                 dispatch ?env opcode c' = Inl (IndexOutOfRange 16 StackLen))"
      and ret: "dispatch ?env 0x00EE NewCPU =
             Inr (None, NewCPU\<lparr>ProgramCounter := Stack NewCPU 0 + 2, StackPointer := 255\<rparr>)"
    by blast
  from st have "Stack c' 0 = 0" "Stack c' 1 = 0x200" "Stack c' 2 = 0x300" "Stack c' 15 = 0x300"
    by (simp_all add: NewCPU_def)
  moreover from full have "dispatch ?env 0x2300 c' = Inl (IndexOutOfRange 16 16)"
    by (simp add: StackLen_def)
  moreover from ret have "dispatch ?env 0x00EE NewCPU =
     Inr (None, NewCPU\<lparr>ProgramCounter := 2, StackPointer := 255\<rparr>)"
    by (simp add: NewCPU_def)
  ultimately show ?thesis
    using seq sp h1 by simp
qed

section \<open>The execution loop and failures\<close>

text \<open>
  Claim C8: whenever dispatch of the fetched opcode returns an error, \<open>emulateCycle\<close>
  leaves the delay timer and the sound timer as they were and hands the error to the
  run loop. In the model: when the fetch gives \<open>opcode\<close> and its dispatch returns the
  error \<open>e\<close> with machine \<open>c'\<close>, the cycle returns that opcode and that error with that
  machine, both timers of \<open>c'\<close> are those of the machine before the cycle, and the loop
  stops at this tick with the error (with nil when the error is the quit sentinel).
\<close>

theorem emulateCycle_error_keeps_timers:
  assumes "decodeOp c = Inr opcode" and "dispatch env opcode c = Inr (Some e, c')"
  shows "emulateCycle env c = Inr ((opcode, Some e), c') \<and>
         DelayTimer c' = DelayTimer c \<and> SoundTimer c' = SoundTimer c \<and>
         Run (Tick env # evs) c = Returned (if e = ErrQuit then None else Some e) c'"
proof -
  have cyc: "emulateCycle env c = Inr ((opcode, Some e), c')"
    using assms by (simp add: emulateCycle_def bindP_def)
  have "c' = c \<or> c' = c\<lparr>ProgramCounter := ProgramCounter c + 2\<rparr>"
    using assms(2) by (rule dispatch_error_state)
  then have "DelayTimer c' = DelayTimer c \<and> SoundTimer c' = SoundTimer c"
    by auto
  with cyc show ?thesis
    by simp
qed

text \<open>
  A new machine with both timers running fetches opcode 0x0000, which is unknown: the
  cycle returns the error and the timers are still 5 and 3.
\<close>

theorem emulateCycle_error_keeps_timers_witness:
  "decodeOp (NewCPU\<lparr>DelayTimer := 5, SoundTimer := 3\<rparr>) = Inr 0x0000 \<and>
   dispatch \<lparr>Intn255 = 0, Keypad = None\<rparr> 0x0000 (NewCPU\<lparr>DelayTimer := 5, SoundTimer := 3\<rparr>) =
     Inr (Some (UnknownOpcode 0x0000), NewCPU\<lparr>DelayTimer := 5, SoundTimer := 3\<rparr>) \<and>
   emulateCycle \<lparr>Intn255 = 0, Keypad = None\<rparr> (NewCPU\<lparr>DelayTimer := 5, SoundTimer := 3\<rparr>) =
     Inr ((0x0000, Some (UnknownOpcode 0x0000)), NewCPU\<lparr>DelayTimer := 5, SoundTimer := 3\<rparr>) \<and>
   Run [Tick \<lparr>Intn255 = 0, Keypad = None\<rparr>] (NewCPU\<lparr>DelayTimer := 5, SoundTimer := 3\<rparr>) =
     Returned (Some (UnknownOpcode 0x0000)) (NewCPU\<lparr>DelayTimer := 5, SoundTimer := 3\<rparr>)"
proof -
  let ?c = "NewCPU\<lparr>DelayTimer := 5, SoundTimer := 3\<rparr>"
  let ?env = "\<lparr>Intn255 = 0, Keypad = None\<rparr>"
  have d: "decodeOp ?c = Inr 0x0000"
    by (simp add: decodeOp_def Memory_at_def bindP_def MemoryLen_def NewCPU_def)
  have e: "dispatch ?env 0x0000 ?c = Inr (Some (UnknownOpcode 0x0000), ?c)"
    by (simp add: dispatch_def dispatch_0x0_def)
  show ?thesis
    using emulateCycle_error_keeps_timers [OF d e, of "[]"] d e by simp
qed

text \<open>
  Claim C9: when the keypad returns the quit sentinel during a key-reading opcode
  (\<open>EX9E\<close>, \<open>EXA1\<close>, \<open>FX0A\<close>), dispatch returns the sentinel itself and the run loop
  returns nil; any other keypad error is wrapped in a new error and the run loop
  returns that error. In the model: the fetched opcode is one of the three, the keypad
  returns the error \<open>err\<close>; dispatch returns \<open>ErrQuit\<close> when \<open>err\<close> is \<open>ErrQuit\<close> and
  otherwise the error with the message
  \<open>chip8: unable to get key from keypad: \<close> followed by the message of \<open>err\<close>, and
  the loop stops at this tick, with nil in the first case and with the wrapped error in
  the second.
\<close>

theorem keypad_quit_is_clean_other_errors_are_fatal:
  assumes "decodeOp c = Inr opcode"
    and "opcode AND 0xF000 = 0xE000 \<and> (opcode AND 0x00FF = 0x9E \<or> opcode AND 0x00FF = 0xA1) \<or>
         opcode AND 0xF000 = 0xF000 \<and> opcode AND 0x00FF = 0x0A"
    and "keypad env = (b, Some err)"
  shows "\<exists>c'. dispatch env opcode c =
              Inr (Some (if err = ErrQuit then ErrQuit
                         else ErrorString (''chip8: unable to get key from keypad: '' @ Error err)),
                   c') \<and>
            Run (Tick env # evs) c =
              Returned (if err = ErrQuit then None
                        else Some (ErrorString
                               (''chip8: unable to get key from keypad: '' @ Error err))) c'"
proof -
  let ?e = "if err = ErrQuit then ErrQuit
            else ErrorString (''chip8: unable to get key from keypad: '' @ Error err)"
  from assms(3) have "getKey env = (b, Some ?e)"
    by (rule getKey_error)
  with assms(2) obtain c' where d: "dispatch env opcode c = Inr (Some ?e, c')"
    using dispatch_key_error by blast
  with assms(1) have "emulateCycle env c = Inr ((opcode, Some ?e), c')"
    by (simp add: emulateCycle_def bindP_def)
  then have "Run (Tick env # evs) c =
      Returned (if err = ErrQuit then None
                else Some (ErrorString (''chip8: unable to get key from keypad: '' @ Error err))) c'"
    by simp
  with d show ?thesis
    by blast
qed

text \<open>
  Two machines: one fetches \<open>E09E\<close> with a keypad that signals quit, and the loop
  returns nil; the other fetches \<open>F00A\<close> with no keypad set, so the null keypad's error
  is wrapped and the loop returns it.
\<close>

theorem keypad_quit_is_clean_other_errors_are_fatal_witness:
  "decodeOp (NewCPU\<lparr>Memory := (Memory NewCPU)(0x200 := 0xE0, 0x201 := 0x9E)\<rparr>) = Inr 0xE09E \<and>
   keypad \<lparr>Intn255 = 0, Keypad = Some (0x00, Some ErrQuit)\<rparr> = (0x00, Some ErrQuit) \<and>
   (\<exists>c'. dispatch \<lparr>Intn255 = 0, Keypad = Some (0x00, Some ErrQuit)\<rparr> 0xE09E
            (NewCPU\<lparr>Memory := (Memory NewCPU)(0x200 := 0xE0, 0x201 := 0x9E)\<rparr>) =
            Inr (Some ErrQuit, c') \<and>
          Run [Tick \<lparr>Intn255 = 0, Keypad = Some (0x00, Some ErrQuit)\<rparr>]
            (NewCPU\<lparr>Memory := (Memory NewCPU)(0x200 := 0xE0, 0x201 := 0x9E)\<rparr>) =
            Returned None c') \<and>
   decodeOp (NewCPU\<lparr>Memory := (Memory NewCPU)(0x200 := 0xF0, 0x201 := 0x0A)\<rparr>) = Inr 0xF00A \<and>
   keypad \<lparr>Intn255 = 0, Keypad = None\<rparr> = (0x00, Some (ErrorString ''null keypad not usable'')) \<and>
   (\<exists>c'. dispatch \<lparr>Intn255 = 0, Keypad = None\<rparr> 0xF00A
            (NewCPU\<lparr>Memory := (Memory NewCPU)(0x200 := 0xF0, 0x201 := 0x0A)\<rparr>) =
            Inr (Some (ErrorString
                   ''chip8: unable to get key from keypad: null keypad not usable''), c') \<and>
          Run [Tick \<lparr>Intn255 = 0, Keypad = None\<rparr>]
            (NewCPU\<lparr>Memory := (Memory NewCPU)(0x200 := 0xF0, 0x201 := 0x0A)\<rparr>) =
            Returned (Some (ErrorString
                   ''chip8: unable to get key from keypad: null keypad not usable'')) c')"
proof -
  let ?cq = "NewCPU\<lparr>Memory := (Memory NewCPU)(0x200 := 0xE0, 0x201 := 0x9E)\<rparr>"
  let ?eq = "\<lparr>Intn255 = 0, Keypad = Some (0x00, Some ErrQuit)\<rparr>"
  let ?cn = "NewCPU\<lparr>Memory := (Memory NewCPU)(0x200 := 0xF0, 0x201 := 0x0A)\<rparr>"
  let ?en = "\<lparr>Intn255 = 0, Keypad = None\<rparr>"
  have dq: "decodeOp ?cq = Inr 0xE09E"
    by (simp add: decodeOp_def Memory_at_def bindP_def MemoryLen_def NewCPU_def)
  have kq: "keypad ?eq = (0x00, Some ErrQuit)"
    by (simp add: keypad_def)
  have oq: "(0xE09E :: uint16) AND 0xF000 = 0xE000 \<and>
            ((0xE09E :: uint16) AND 0x00FF = 0x9E \<or> (0xE09E :: uint16) AND 0x00FF = 0xA1) \<or>
            (0xE09E :: uint16) AND 0xF000 = 0xF000 \<and> (0xE09E :: uint16) AND 0x00FF = 0x0A"
    by simp
  have dn: "decodeOp ?cn = Inr 0xF00A"
    by (simp add: decodeOp_def Memory_at_def bindP_def MemoryLen_def NewCPU_def)
  have kn: "keypad ?en = (0x00, Some (ErrorString ''null keypad not usable''))"
    by (simp add: keypad_def NullKeypad_def)
  have on: "(0xF00A :: uint16) AND 0xF000 = 0xE000 \<and>
            ((0xF00A :: uint16) AND 0x00FF = 0x9E \<or> (0xF00A :: uint16) AND 0x00FF = 0xA1) \<or>
            (0xF00A :: uint16) AND 0xF000 = 0xF000 \<and> (0xF00A :: uint16) AND 0x00FF = 0x0A"
    by simp
  show ?thesis
    using keypad_quit_is_clean_other_errors_are_fatal [OF dq oq kq, of "[]"]
      keypad_quit_is_clean_other_errors_are_fatal [OF dn on kn, of "[]"] dq kq dn kn
    by simp
qed

section \<open>Program load\<close>

lemma nth_take_offset:
  "off \<le> a \<Longrightarrow> a < off + n \<Longrightarrow> take n b ! (a - off) = b ! (a - off)"
  by simp

text \<open>
  Claim C5, as amended: loading a byte sequence of length L at an offset O within the
  memory (\<open>0 \<le> O \<le> 4096\<close>) writes the first \<open>min L (4096 - O)\<close> bytes of the sequence
  to memory from O on, changes nothing else, and returns that count; this is L bytes
  and the count L when the sequence fits. A sequence longer than the memory left is
  not refused: the load writes the bytes that fit and returns their number with a nil
  error. The only error is \<open>io.EOF\<close>, for an empty sequence.
\<close>

theorem load_writes_what_fits:
  assumes "off \<le> 4096"
  shows "\<exists>c'. load (int off) (NewReader b) c =
            Inr ((int (min (length b) (4096 - off)), if b = [] then Some EOF else None), c') \<and>
          (\<forall>a. Memory c' a =
             (if off \<le> a \<and> a < off + min (length b) (4096 - off) then b ! (a - off)
              else Memory c a)) \<and>
          c' = c\<lparr>Memory := Memory c'\<rparr>"
proof (cases "b = []")
  case True
  with assms show ?thesis
    by (auto simp add: load_def Reader_Read_def NewReader_def MemoryLen_def Let_def)
next
  case False
  with assms show ?thesis
    by (simp add: load_def Reader_Read_def NewReader_def MemoryLen_def Let_def min.commute
        nth_take_offset)
qed


text \<open>Three bytes at offset 4094: two are written, the cell before them is untouched.\<close>

theorem load_writes_what_fits_witness:
  "(4094::nat) \<le> 4096 \<and>
   (\<exists>c'. load 4094 (NewReader [0x01, 0x02, 0x03]) NewCPU = Inr ((2, None), c') \<and>
      Memory c' 4093 = 0 \<and> Memory c' 4094 = 0x01 \<and> Memory c' 4095 = 0x02)"
proof -
  from load_writes_what_fits [of 4094 "[0x01, 0x02, 0x03]" NewCPU] obtain c'
    where l: "load 4094 (NewReader [0x01, 0x02, 0x03]) NewCPU = Inr ((2, None), c')"
      and m: "\<forall>a. Memory c' a =
             (if 4094 \<le> a \<and> a < 4094 + min (length [0x01, 0x02, 0x03 :: byte]) (4096 - 4094)
              then [0x01, 0x02, 0x03] ! (a - 4094)
              else Memory NewCPU a)"
    by auto
  from m have "Memory c' 4093 = 0" "Memory c' 4094 = 0x01" "Memory c' 4095 = 0x02"
    by (simp_all add: NewCPU_def)
  with l show ?thesis
    by simp
qed

text \<open>
  The claim as it was stated asks for an error when the source exceeds the memory left.
  Three bytes at offset 4094 exceed the two bytes left, and the load returns the count
  2 and a nil error.
\<close>

theorem load_oversized_source_is_truncated:
  "map_sum id fst (load 4094 (NewReader [0x01, 0x02, 0x03]) NewCPU) = Inr (2, None)"
  by (simp add: load_def Reader_Read_def NewReader_def MemoryLen_def)

end
